theory Spec2Isabelle
  imports Complex_Main "HOL-Library.Word" "HOL-Library.Monad_Syntax"
begin

unbundle bit_operations_syntax

section \<open>i3bar drawing utilities (draw\_util.c)\<close>

text \<open>
  A shallow embedding of \<^verbatim>\<open>i3bar/src/draw_util.c\<close>. The file is glue over two
  graphics libraries, so the embedding keeps three things apart:
  \<^item> what the C code computes itself (string indexing, \<^verbatim>\<open>strlen\<close>, \<^verbatim>\<open>strtol\<close>, the
    casts to 16-bit integers, the struct updates) is written out as HOL functions;
  \<^item> what the libraries answer (a fresh identifier, whether a request failed, a
    colour's pixel value) is a parameter of the function that asks;
  \<^item> what the code asks the libraries to do is returned as the list of calls issued,
    in order.
  A read outside an array is the value \<open>None\<close>; a call of \<^verbatim>\<open>exit\<close> is the value
  \<open>Inl status\<close>. A conversion from double to a 16-bit integer whose result C leaves
  undefined still yields some 16-bit value in the compiled program: which one is a
  parameter, with the usual x86-64 build as one instance.
\<close>

subsection \<open>C strings\<close>

text \<open>
  A \<^verbatim>\<open>const char *\<close> argument is modelled by the bytes of the array it points to,
  without the array's final byte, which is the terminator. So the array of a value
  \<open>s\<close> has \<open>length s + 1\<close> bytes: index \<open>length s\<close> reads the terminator and
  every larger index is outside the array. The bytes may contain an earlier NUL;
  \<^verbatim>\<open>strlen\<close> stops at the first one.
\<close>

definition NUL :: char where
  "NUL = CHR 0x00"

definition c_strlen :: "string \<Rightarrow> nat" where
  "c_strlen s = length (takeWhile (\<lambda>c. c \<noteq> NUL) s)"

definition c_index :: "string \<Rightarrow> nat \<Rightarrow> char option" where
  "c_index s i =
     (if i < length s then Some (s ! i)
      else if i = length s then Some NUL
      else None)"

text \<open>The C string held in a local array whose last element is \<^verbatim>\<open>'\0'\<close>, given the
  elements before it: the characters up to the first NUL.\<close>

definition c_string :: "string \<Rightarrow> string" where
  "c_string buf = takeWhile (\<lambda>c. c \<noteq> NUL) buf"

subsection \<open>strtol in base 16\<close>

text \<open>
  \<^verbatim>\<open>strtol(nptr, NULL, 16)\<close> as ISO C defines it: white space is skipped, one sign is
  accepted, then an optional \<^verbatim>\<open>0x\<close> prefix (only when a hexadecimal digit follows it),
  then the longest run of hexadecimal digits; with no digit the result is 0. The
  white space is that of the C locale. The clamp to the range of \<^verbatim>\<open>long\<close> is left
  out: the callers in this file pass at most two characters, whose value is below 256.
\<close>

definition isspace :: "char \<Rightarrow> bool" where
  "isspace c = (c = CHR '' '' \<or> c = CHR 0x09 \<or> c = CHR 0x0A \<or> c = CHR 0x0B
                 \<or> c = CHR 0x0C \<or> c = CHR 0x0D)"

definition hex_digit :: "char \<Rightarrow> nat option" where
  "hex_digit c =
     (let n = (of_char c :: nat) in
      if 48 \<le> n \<and> n \<le> 57 then Some (n - 48)
      else if 97 \<le> n \<and> n \<le> 102 then Some (n - 87)
      else if 65 \<le> n \<and> n \<le> 70 then Some (n - 55)
      else None)"

fun strtol_digits :: "int \<Rightarrow> string \<Rightarrow> int" where
  "strtol_digits acc [] = acc"
| "strtol_digits acc (c # cs) =
     (case hex_digit c of
        None \<Rightarrow> acc
      | Some d \<Rightarrow> strtol_digits (16 * acc + int d) cs)"

definition strtol16 :: "string \<Rightarrow> int" where
  "strtol16 nptr =
     (let s1 = dropWhile isspace nptr;
          neg = (case s1 of [] \<Rightarrow> False | c # _ \<Rightarrow> c = CHR ''-'');
          s2 = (case s1 of
                  [] \<Rightarrow> s1
                | c # r \<Rightarrow> if c = CHR ''-'' \<or> c = CHR ''+'' then r else s1);
          s3 = (case s2 of
                  z # x # d # r \<Rightarrow>
                    if z = CHR ''0'' \<and> (x = CHR ''x'' \<or> x = CHR ''X'') \<and> hex_digit d \<noteq> None
                    then d # r else s2
                | _ \<Rightarrow> s2);
          v = strtol_digits 0 s3
      in if neg then - v else v)"

subsection \<open>Colours\<close>

text \<open>
  \<^verbatim>\<open>color_t\<close>: the four channels are C doubles, the pixel value a \<^verbatim>\<open>uint32_t\<close>. A
  channel is modelled by the real number the double stands for. The only arithmetic
  on a channel is one division of an integer between \<open>-15\<close> and \<open>255\<close> by \<open>255.0\<close>;
  the model keeps the exact quotient, of which the double is the nearest
  representable value (equal to it for the quotients 0 and 1, and on the same side of
  0 and of 1 for all others).
\<close>

record color_t =
  red :: real
  green :: real
  blue :: real
  alpha :: real
  colorpixel :: "32 word"

text \<open>
  \<^verbatim>\<open>draw_util_hex_to_color\<close>. \<^verbatim>\<open>get_colorpixel\<close> is a function of libi3, outside this
  file: it is a parameter here. The reads of \<^verbatim>\<open>color[7]\<close> and \<^verbatim>\<open>color[8]\<close> happen only
  when \<^verbatim>\<open>strlen\<close> is 9; the reads of \<^verbatim>\<open>color[1]\<close> to \<^verbatim>\<open>color[6]\<close> always happen.
\<close>

definition draw_util_hex_to_color :: "(string \<Rightarrow> 32 word) \<Rightarrow> string \<Rightarrow> color_t option" where
  "draw_util_hex_to_color get_colorpixel color =
     do {
       alpha \<leftarrow> (if c_strlen color = c_strlen ''#rrggbbaa''
                 then do { a0 \<leftarrow> c_index color 7; a1 \<leftarrow> c_index color 8; Some [a0, a1] }
                 else Some [CHR ''F'', CHR ''F'']);
       c1 \<leftarrow> c_index color 1;
       c2 \<leftarrow> c_index color 2;
       c3 \<leftarrow> c_index color 3;
       c4 \<leftarrow> c_index color 4;
       c5 \<leftarrow> c_index color 5;
       c6 \<leftarrow> c_index color 6;
       let groups = [c_string [c1, c2], c_string [c3, c4], c_string [c5, c6], c_string alpha];
       Some \<lparr> red = real_of_int (strtol16 (groups ! 0)) / 255,
              green = real_of_int (strtol16 (groups ! 1)) / 255,
              blue = real_of_int (strtol16 (groups ! 2)) / 255,
              alpha = real_of_int (strtol16 (groups ! 3)) / 255,
              colorpixel = get_colorpixel color \<rparr>
     }"

subsection \<open>Surfaces\<close>

type_synonym xcb_drawable_t = "32 word"
type_synonym xcb_gcontext_t = "32 word"
type_synonym c_int = "32 word"

text \<open>
  Modelled from the spec: \<^verbatim>\<open>surface_t\<close> is declared in a header, which is not at
  hand. The spec gives it a drawable identifier, a graphics-context handle, a
  width and a height, and optionally a retained rendering context; the fields are
  named as this file accesses them. Width and height have the type of the \<^verbatim>\<open>int\<close>
  arguments assigned to them. The two cairo handles are pointers, modelled by
  numbers; a build without cairo never touches them. The field \<^verbatim>\<open>id\<close> is written
  \<open>id'\<close>.
\<close>

record surface_t =
  id' :: xcb_drawable_t
  gc :: xcb_gcontext_t
  width :: c_int
  height :: c_int
  surface :: nat
  cr :: nat

text \<open>
  What the libraries answer during \<^verbatim>\<open>draw_util_surface_init\<close>: the identifier that
  \<^verbatim>\<open>xcb_generate_id\<close> hands out, whether \<^verbatim>\<open>xcb_request_failed\<close> reports an error for
  the request that creates the given graphics context on the given drawable, and the
  handles the two cairo constructors return. None of these functions is in this file.
\<close>

record libs =
  xcb_generate_id :: xcb_gcontext_t
  xcb_request_failed :: "xcb_gcontext_t \<Rightarrow> xcb_drawable_t \<Rightarrow> bool"
  cairo_xcb_surface_create :: "xcb_drawable_t \<Rightarrow> c_int \<Rightarrow> c_int \<Rightarrow> nat"
  cairo_create :: "nat \<Rightarrow> nat"

definition EXIT_FAILURE :: int where
  "EXIT_FAILURE = 1"

text \<open>
  \<^verbatim>\<open>draw_util_surface_init\<close>. The first argument says whether the file is compiled
  with \<^verbatim>\<open>I3BAR_CAIRO\<close>. \<open>Inl status\<close> is \<^verbatim>\<open>exit(status)\<close>; \<open>Inr s\<close> is a normal return
  that leaves the surface as \<open>s\<close>.
\<close>

definition draw_util_surface_init ::
  "bool \<Rightarrow> libs \<Rightarrow> surface_t \<Rightarrow> xcb_drawable_t \<Rightarrow> c_int \<Rightarrow> c_int \<Rightarrow> int + surface_t" where
  "draw_util_surface_init I3BAR_CAIRO lib surface0 drawable w h =
     (let s1 = surface0\<lparr>id' := drawable\<rparr>;
          s2 = s1\<lparr>width := w\<rparr>;
          s3 = s2\<lparr>height := h\<rparr>;
          s4 = s3\<lparr>gc := xcb_generate_id lib\<rparr>
      in if xcb_request_failed lib (gc s4) (id' s4) then Inl EXIT_FAILURE
         else if I3BAR_CAIRO then
           (let s5 = s4\<lparr>surface := cairo_xcb_surface_create lib (id' s4) w h\<rparr>;
                s6 = s5\<lparr>cr := cairo_create lib (surface s5)\<rparr>
            in Inr s6)
         else Inr s4)"

subsection \<open>Conversions from double to 16-bit integers\<close>

text \<open>
  A \<^verbatim>\<open>double\<close> argument is modelled by the real number it stands for (a NaN or an
  infinity is not modelled). ISO C (6.3.1.4) converts a floating value to an integer
  type by discarding the fraction; when the integral part is not a value of the type
  the behaviour is undefined. The compiled code performs the conversion all the same
  and goes on with the 16 bits it produced. A \<open>platform\<close> says which bits these are,
  for the target \<^verbatim>\<open>int16_t\<close> and for the target \<^verbatim>\<open>uint16_t\<close>; where C defines the
  conversion the platform is not asked. This holds for the casts \<^verbatim>\<open>(int16_t)\<close> and
  \<^verbatim>\<open>(uint16_t)\<close> and for the initialisation of an \<^verbatim>\<open>xcb_rectangle_t\<close> with doubles alike.
\<close>

definition trunc :: "real \<Rightarrow> int" where
  "trunc d = (if 0 \<le> d then \<lfloor>d\<rfloor> else \<lceil>d\<rceil>)"

definition fits_int16 :: "real \<Rightarrow> bool" where
  "fits_int16 d = (- 32768 \<le> trunc d \<and> trunc d \<le> 32767)"

definition fits_uint16 :: "real \<Rightarrow> bool" where
  "fits_uint16 d = (0 \<le> trunc d \<and> trunc d \<le> 65535)"

definition fits_int32 :: "real \<Rightarrow> bool" where
  "fits_int32 d = (- 2147483648 \<le> trunc d \<and> trunc d \<le> 2147483647)"

record platform =
  unrepresentable_int16 :: "real \<Rightarrow> 16 word"
  unrepresentable_uint16 :: "real \<Rightarrow> 16 word"

definition double_to_int16 :: "platform \<Rightarrow> real \<Rightarrow> 16 word" where
  "double_to_int16 pf d =
     (if fits_int16 d then word_of_int (trunc d) else unrepresentable_int16 pf d)"

definition double_to_uint16 :: "platform \<Rightarrow> real \<Rightarrow> 16 word" where
  "double_to_uint16 pf d =
     (if fits_uint16 d then word_of_int (trunc d) else unrepresentable_uint16 pf d)"

text \<open>
  The usual build for x86-64: the compiler converts the double with the instruction
  \<^verbatim>\<open>cvttsd2si\<close> into a 32-bit register and keeps the low 16 bits. The instruction
  truncates; when the integral part is not a 32-bit signed integer it delivers
  \<open>-2^31\<close>, whose low 16 bits are 0.
\<close>

definition cvttsd2si :: "real \<Rightarrow> int" where
  "cvttsd2si d = (if fits_int32 d then trunc d else - 2147483648)"

definition x86_64 :: platform where
  "x86_64 = \<lparr> unrepresentable_int16 = (\<lambda>d. word_of_int (cvttsd2si d)),
              unrepresentable_uint16 = (\<lambda>d. word_of_int (cvttsd2si d)) \<rparr>"

subsection \<open>Drawing: the library calls issued\<close>

text \<open>
  The drawing functions return nothing and compute nothing but the arguments of
  their library calls, so each is modelled by the list of calls it issues. A pointer
  to a cairo object and a cairo context is the handle stored in the surface.
  \<^verbatim>\<open>CAIRO_SURFACE_FLUSH\<close> is a macro defined outside this file and
  \<^verbatim>\<open>set_font_colors\<close> and \<^verbatim>\<open>draw_text\<close> are functions of libi3: each is one call here.
\<close>

datatype cairo_operator_t = CAIRO_OPERATOR_CLEAR | CAIRO_OPERATOR_SOURCE | CAIRO_OPERATOR_OVER

datatype xcb_rectangle_t = Xcb_rectangle "16 word" "16 word" "16 word" "16 word"

datatype call =
    Cairo_save nat
  | Cairo_restore nat
  | Cairo_set_operator nat cairo_operator_t
  | Cairo_set_source_rgba nat real real real real
  | Cairo_set_source_surface nat nat real real
  | Cairo_rectangle nat real real real real
  | Cairo_fill nat
  | Cairo_paint nat
  | Cairo_surface_mark_dirty nat
  | CAIRO_SURFACE_FLUSH nat
  | Xcb_change_gc xcb_gcontext_t "32 word" "32 word list"
  | Xcb_poly_fill_rectangle xcb_drawable_t xcb_gcontext_t "xcb_rectangle_t list"
  | Xcb_copy_area xcb_drawable_t xcb_drawable_t xcb_gcontext_t
      "16 word" "16 word" "16 word" "16 word" "16 word" "16 word"
  | Set_font_colors xcb_gcontext_t "32 word" "32 word"
  | Draw_text string xcb_drawable_t xcb_gcontext_t c_int c_int c_int

definition XCB_GC_FOREGROUND :: "32 word" where
  "XCB_GC_FOREGROUND = 4"

definition XCB_GC_BACKGROUND :: "32 word" where
  "XCB_GC_BACKGROUND = 8"

definition draw_util_set_source_color :: "bool \<Rightarrow> surface_t \<Rightarrow> color_t \<Rightarrow> call list" where
  "draw_util_set_source_color I3BAR_CAIRO s color =
     (if I3BAR_CAIRO
      then [Cairo_set_source_rgba (cr s) (red color) (green color) (blue color) (alpha color)]
      else [Xcb_change_gc (gc s) (XCB_GC_FOREGROUND OR XCB_GC_BACKGROUND)
              [colorpixel color, colorpixel color]])"

definition draw_util_text ::
  "bool \<Rightarrow> string \<Rightarrow> surface_t \<Rightarrow> color_t \<Rightarrow> color_t \<Rightarrow> c_int \<Rightarrow> c_int \<Rightarrow> c_int \<Rightarrow> call list" where
  "draw_util_text I3BAR_CAIRO text s fg_color bg_color x y max_width =
     (if I3BAR_CAIRO then [CAIRO_SURFACE_FLUSH (surface s)] else [])
     @ [Set_font_colors (gc s) (colorpixel fg_color) (colorpixel bg_color),
        Draw_text text (id' s) (gc s) x y max_width]
     @ (if I3BAR_CAIRO then [Cairo_surface_mark_dirty (surface s)] else [])"

definition draw_util_rectangle ::
  "bool \<Rightarrow> platform \<Rightarrow> surface_t \<Rightarrow> color_t \<Rightarrow> real \<Rightarrow> real \<Rightarrow> real \<Rightarrow> real \<Rightarrow> call list" where
  "draw_util_rectangle I3BAR_CAIRO pf s color x y w h =
     (if I3BAR_CAIRO
      then [Cairo_save (cr s), Cairo_set_operator (cr s) CAIRO_OPERATOR_SOURCE]
           @ draw_util_set_source_color I3BAR_CAIRO s color
           @ [Cairo_rectangle (cr s) x y w h, Cairo_fill (cr s),
              CAIRO_SURFACE_FLUSH (surface s), Cairo_restore (cr s)]
      else draw_util_set_source_color I3BAR_CAIRO s color
           @ [Xcb_poly_fill_rectangle (id' s) (gc s)
                [Xcb_rectangle (double_to_int16 pf x) (double_to_int16 pf y)
                   (double_to_uint16 pf w) (double_to_uint16 pf h)]])"

text \<open>The rectangle of the build without cairo takes the surface's \<^verbatim>\<open>int\<close> width and
  height into \<^verbatim>\<open>uint16_t\<close> fields: an integer conversion, which keeps the low 16 bits.\<close>

definition draw_util_clear_surface :: "bool \<Rightarrow> surface_t \<Rightarrow> color_t \<Rightarrow> call list" where
  "draw_util_clear_surface I3BAR_CAIRO s color =
     (if I3BAR_CAIRO
      then [Cairo_save (cr s), Cairo_set_operator (cr s) CAIRO_OPERATOR_SOURCE]
           @ draw_util_set_source_color I3BAR_CAIRO s color
           @ [Cairo_paint (cr s), CAIRO_SURFACE_FLUSH (surface s), Cairo_restore (cr s)]
      else draw_util_set_source_color I3BAR_CAIRO s color
           @ [Xcb_poly_fill_rectangle (id' s) (gc s)
                [Xcb_rectangle 0 0 (ucast (width s)) (ucast (height s))]])"

definition draw_util_copy_surface ::
  "bool \<Rightarrow> platform \<Rightarrow> surface_t \<Rightarrow> surface_t \<Rightarrow> real \<Rightarrow> real \<Rightarrow> real \<Rightarrow> real \<Rightarrow> real \<Rightarrow> real
     \<Rightarrow> call list" where
  "draw_util_copy_surface I3BAR_CAIRO pf src dest src_x src_y dest_x dest_y w h =
     (if I3BAR_CAIRO
      then [Cairo_save (cr dest),
            Cairo_set_operator (cr dest) CAIRO_OPERATOR_SOURCE,
            Cairo_set_source_surface (cr dest) (surface src) (dest_x - src_x) src_y,
            Cairo_rectangle (cr dest) dest_x dest_y w h,
            Cairo_fill (cr dest),
            CAIRO_SURFACE_FLUSH (surface src),
            CAIRO_SURFACE_FLUSH (surface dest),
            Cairo_restore (cr dest)]
      else [Xcb_copy_area (id' src) (id' dest) (gc dest)
              (double_to_int16 pf src_x) (double_to_int16 pf src_y)
              (double_to_int16 pf dest_x) (double_to_int16 pf dest_y)
              (double_to_uint16 pf w) (double_to_uint16 pf h)])"

text \<open>
  Which source pixel a copy shows at a destination point, as the two libraries
  document their calls. The X11 request CopyArea puts the source pixel
  \<open>(src_x + i, src_y + j)\<close> at \<open>(dst_x + i, dst_y + j)\<close>. In cairo,
  \<^verbatim>\<open>cairo_set_source_surface(cr, s, x, y)\<close> places the origin of \<open>s\<close> at the point
  \<open>(x, y)\<close>, so a fill shows at \<open>(X, Y)\<close> the source pixel \<open>(X - x, Y - y)\<close>.
  \<open>copied_from\<close> reads this off the first copying call of a list.
\<close>

definition copy_source_pixel :: "call \<Rightarrow> real \<times> real \<Rightarrow> (real \<times> real) option" where
  "copy_source_pixel c p =
     (case c of
        Xcb_copy_area _ _ _ sx sy dx dy _ _ \<Rightarrow>
          Some (fst p - real_of_int (sint dx) + real_of_int (sint sx),
                snd p - real_of_int (sint dy) + real_of_int (sint sy))
      | Cairo_set_source_surface _ _ x y \<Rightarrow> Some (fst p - x, snd p - y)
      | _ \<Rightarrow> None)"

definition copied_from :: "call list \<Rightarrow> real \<times> real \<Rightarrow> (real \<times> real) option" where
  "copied_from calls p =
     (case List.map_filter (\<lambda>c. copy_source_pixel c p) calls of
        [] \<Rightarrow> None
      | q # _ \<Rightarrow> Some q)"

subsection \<open>What the calls do to pixels\<close>

text \<open>
  The X11 protocol's meaning of the three requests the build without cairo issues,
  on a server state that holds the pixels of every drawable and the foreground of
  every graphics context. A graphics context made by \<^verbatim>\<open>draw_util_surface_init\<close> has the
  protocol's defaults (function Copy, all planes, solid fill, no clip mask), and
  this file changes only its foreground and background, so a fill writes the
  foreground and a copy writes the source pixel. The extent of a drawable is the
  server's knowledge: the plane of pixels is unbounded here, and a pixel beyond the
  extent is one that is never seen. ChangeGC takes its values in the order of the
  bits set in the mask; the foreground is bit 2. A rectangle has a signed origin and
  an unsigned size. Calls of the other libraries have no meaning here (\<open>None\<close>).
\<close>

record xserver =
  pixels :: "xcb_drawable_t \<Rightarrow> int \<times> int \<Rightarrow> 32 word"
  foreground :: "xcb_gcontext_t \<Rightarrow> 32 word"

definition in_rectangle :: "xcb_rectangle_t \<Rightarrow> int \<times> int \<Rightarrow> bool" where
  "in_rectangle r p =
     (case r of Xcb_rectangle x y w h \<Rightarrow>
        sint x \<le> fst p \<and> fst p < sint x + uint w \<and> sint y \<le> snd p \<and> snd p < sint y + uint h)"

definition gc_value :: "32 word \<Rightarrow> 32 word list \<Rightarrow> nat \<Rightarrow> 32 word option" where
  "gc_value value_mask vals n =
     (let i = length (filter (bit value_mask) [0..<n])
      in if bit value_mask n \<and> i < length vals then Some (vals ! i) else None)"

definition xcb_exec :: "call \<Rightarrow> xserver \<Rightarrow> xserver option" where
  "xcb_exec c st =
     (case c of
        Xcb_change_gc g value_mask vals \<Rightarrow>
          (case gc_value value_mask vals 2 of
             None \<Rightarrow> Some st
           | Some v \<Rightarrow> Some (st\<lparr>foreground := (foreground st)(g := v)\<rparr>))
      | Xcb_poly_fill_rectangle d g rects \<Rightarrow>
          Some (st\<lparr>pixels := (pixels st)
                  (d := \<lambda>p. if list_ex (\<lambda>r. in_rectangle r p) rects
                            then foreground st g else pixels st d p)\<rparr>)
      | Xcb_copy_area s d g sx sy dx dy w h \<Rightarrow>
          Some (st\<lparr>pixels := (pixels st)
                  (d := \<lambda>p. if in_rectangle (Xcb_rectangle dx dy w h) p
                            then pixels st s (fst p - sint dx + sint sx, snd p - sint dy + sint sy)
                            else pixels st d p)\<rparr>)
      | _ \<Rightarrow> None)"

fun xcb_run :: "call list \<Rightarrow> xserver \<Rightarrow> xserver option" where
  "xcb_run [] st = Some st"
| "xcb_run (c # cs) st =
     (case xcb_exec c st of None \<Rightarrow> None | Some st' \<Rightarrow> xcb_run cs st')"

text \<open>
  The two rectangles the build without cairo sends: the destination of the copy and
  the rectangle of the clear.
\<close>

definition copy_region :: "platform \<Rightarrow> real \<Rightarrow> real \<Rightarrow> real \<Rightarrow> real \<Rightarrow> xcb_rectangle_t" where
  "copy_region pf dest_x dest_y w h =
     Xcb_rectangle (double_to_int16 pf dest_x) (double_to_int16 pf dest_y)
       (double_to_uint16 pf w) (double_to_uint16 pf h)"

definition clear_region :: "surface_t \<Rightarrow> xcb_rectangle_t" where
  "clear_region s = Xcb_rectangle 0 0 (ucast (width s)) (ucast (height s))"

text \<open>
  The cairo manual's meaning of the calls the build with cairo issues, on a state
  that holds, for every context, its target surface, its graphics state (operator
  and source), the stack of saved graphics states and the current path, and for
  every surface its contents. \<^verbatim>\<open>cairo_paint\<close> paints the source everywhere (this file
  sets no clip); with the operator SOURCE and a colour as source every pixel of the
  target becomes that colour, whose components cairo clamps to [0, 1]. What a fill
  of a path leaves in the target (coverage, antialiasing, sampling of a source
  surface) and what a paint with another operator or source leaves there is the
  library's answer, a parameter. A fill consumes the path. \<^verbatim>\<open>cairo_restore\<close> without a
  saved state is an error (\<open>None\<close>). Flushing a surface and marking it dirty change
  no contents.
\<close>

datatype cairo_source = Source_rgba real real real real | Source_surface nat real real

record cairo_gstate =
  operator :: cairo_operator_t
  source :: cairo_source

type_synonym rgba = "real \<times> real \<times> real \<times> real"

record cairo_state =
  target :: "nat \<Rightarrow> nat"
  gstate :: "nat \<Rightarrow> cairo_gstate"
  saved :: "nat \<Rightarrow> cairo_gstate list"
  path :: "nat \<Rightarrow> (real \<times> real \<times> real \<times> real) list"
  contents :: "nat \<Rightarrow> int \<times> int \<Rightarrow> rgba"

record cairo_lib =
  fill_image :: "(real \<times> real \<times> real \<times> real) list \<Rightarrow> cairo_gstate
                   \<Rightarrow> (nat \<Rightarrow> int \<times> int \<Rightarrow> rgba) \<Rightarrow> nat \<Rightarrow> int \<times> int \<Rightarrow> rgba"
  paint_image :: "cairo_gstate \<Rightarrow> (nat \<Rightarrow> int \<times> int \<Rightarrow> rgba) \<Rightarrow> nat \<Rightarrow> int \<times> int \<Rightarrow> rgba"

definition clamp01 :: "real \<Rightarrow> real" where
  "clamp01 x = max 0 (min 1 x)"

definition cairo_exec :: "cairo_lib \<Rightarrow> call \<Rightarrow> cairo_state \<Rightarrow> cairo_state option" where
  "cairo_exec lib c st =
     (case c of
        Cairo_save k \<Rightarrow> Some (st\<lparr>saved := (saved st)(k := gstate st k # saved st k)\<rparr>)
      | Cairo_restore k \<Rightarrow>
          (case saved st k of
             [] \<Rightarrow> None
           | g # gs \<Rightarrow> Some (st\<lparr>gstate := (gstate st)(k := g), saved := (saved st)(k := gs)\<rparr>))
      | Cairo_set_operator k op \<Rightarrow>
          Some (st\<lparr>gstate := (gstate st)(k := (gstate st k)\<lparr>operator := op\<rparr>)\<rparr>)
      | Cairo_set_source_rgba k r g b a \<Rightarrow>
          Some (st\<lparr>gstate := (gstate st)(k := (gstate st k)\<lparr>source := Source_rgba r g b a\<rparr>)\<rparr>)
      | Cairo_set_source_surface k s x y \<Rightarrow>
          Some (st\<lparr>gstate := (gstate st)(k := (gstate st k)\<lparr>source := Source_surface s x y\<rparr>)\<rparr>)
      | Cairo_rectangle k x y w h \<Rightarrow>
          Some (st\<lparr>path := (path st)(k := path st k @ [(x, y, w, h)])\<rparr>)
      | Cairo_fill k \<Rightarrow>
          Some (st\<lparr>contents := (contents st)
                    (target st k := fill_image lib (path st k) (gstate st k) (contents st) (target st k)),
                  path := (path st)(k := [])\<rparr>)
      | Cairo_paint k \<Rightarrow>
          Some (st\<lparr>contents := (contents st)
                    (target st k :=
                       (case (operator (gstate st k), source (gstate st k)) of
                          (CAIRO_OPERATOR_SOURCE, Source_rgba r g b a) \<Rightarrow>
                            (\<lambda>p. (clamp01 r, clamp01 g, clamp01 b, clamp01 a))
                        | _ \<Rightarrow> paint_image lib (gstate st k) (contents st) (target st k)))\<rparr>)
      | Cairo_surface_mark_dirty s \<Rightarrow> Some st
      | CAIRO_SURFACE_FLUSH s \<Rightarrow> Some st
      | _ \<Rightarrow> None)"

fun cairo_run :: "cairo_lib \<Rightarrow> call list \<Rightarrow> cairo_state \<Rightarrow> cairo_state option" where
  "cairo_run lib [] st = Some st"
| "cairo_run lib (c # cs) st =
     (case cairo_exec lib c st of None \<Rightarrow> None | Some st' \<Rightarrow> cairo_run lib cs st')"

section \<open>Properties of the colour parser\<close>

lemmas hex_to_color_unfold =
  draw_util_hex_to_color_def c_strlen_def c_index_def c_string_def NUL_def
  strtol16_def isspace_def hex_digit_def

subsection \<open>Reading the string\<close>

lemma c_strlen_le: "c_strlen s \<le> length s"
  by (simp add: c_strlen_def length_takeWhile_le)

lemma c_strlen_literal: "c_strlen ''#rrggbbaa'' = 9"
  by (simp add: c_strlen_def NUL_def)

lemma c_index_in: "i < length s \<Longrightarrow> c_index s i = Some (s ! i)"
  by (simp add: c_index_def)

lemma c_index_Some_iff: "(\<exists>c. c_index s i = Some c) = (i \<le> length s)"
  by (auto simp: c_index_def)

lemma c_index_None_iff: "(c_index s i = None) = (length s < i)"
  by (auto simp: c_index_def)

lemma length_c_string: "length (c_string buf) \<le> length buf"
  by (simp add: c_string_def length_takeWhile_le)

lemma group_cases: "c_string [a, b] = [] \<or> c_string [a, b] = [a] \<or> c_string [a, b] = [a, b]"
  by (simp add: c_string_def)

subsection \<open>The value of a group of two characters\<close>

lemma hex_digit_le15: "hex_digit c = Some d \<Longrightarrow> d \<le> 15"
  by (auto simp: hex_digit_def Let_def split: if_splits)

lemma hex_digit_not_special:
  "hex_digit c = Some d \<Longrightarrow> c \<noteq> NUL \<and> \<not> isspace c \<and> c \<noteq> CHR ''-'' \<and> c \<noteq> CHR ''+''"
  by (auto simp: hex_digit_def Let_def NUL_def isspace_def split: if_splits)

text \<open>The digits read from an accumulator \<open>acc\<close> stay below \<open>(acc + 1) * 16 ^ n\<close> for a
  string of \<open>n\<close> characters.\<close>

lemma strtol_digits_bounds:
  "0 \<le> acc \<Longrightarrow> 0 \<le> strtol_digits acc s \<and> strtol_digits acc s < (acc + 1) * 16 ^ length s"
proof (induction s arbitrary: acc)
  case Nil
  then show ?case by simp
next
  case (Cons c cs)
  show ?case
  proof (cases "hex_digit c")
    case None
    have p: "(1::int) \<le> 16 ^ length (c # cs)"
      by (rule one_le_power) simp
    have "acc < (acc + 1) * 1"
      by simp
    also have "\<dots> \<le> (acc + 1) * 16 ^ length (c # cs)"
      using Cons.prems p by (intro mult_left_mono) auto
    finally have "acc < (acc + 1) * 16 ^ length (c # cs)" .
    with None Cons.prems show ?thesis by simp
  next
    case (Some d)
    then have d: "int d \<le> 15" using hex_digit_le15 by fastforce
    have nn: "0 \<le> 16 * acc + int d" using Cons.prems by simp
    from Cons.IH [OF nn]
    have lo: "0 \<le> strtol_digits (16 * acc + int d) cs"
      and hi: "strtol_digits (16 * acc + int d) cs < (16 * acc + int d + 1) * 16 ^ length cs"
      by simp_all
    have "(16 * acc + int d + 1) * 16 ^ length cs \<le> (16 * (acc + 1)) * 16 ^ length cs"
      using d by (intro mult_right_mono) auto
    also have "\<dots> = (acc + 1) * 16 ^ length (c # cs)"
      by simp
    finally have "strtol_digits (16 * acc + int d) cs < (acc + 1) * 16 ^ length (c # cs)"
      using hi by linarith
    with lo Some show ?thesis by simp
  qed
qed

lemma strtol_digits_0_short:
  "length s \<le> 2 \<Longrightarrow> 0 \<le> strtol_digits 0 s \<and> strtol_digits 0 s \<le> 255"
proof -
  assume l: "length s \<le> 2"
  have "(16::int) ^ length s \<le> 16 ^ 2" using l by (intro power_increasing) auto
  with strtol_digits_bounds [of 0 s] show ?thesis by simp
qed

lemma strtol_digits_0_one:
  "length s \<le> 1 \<Longrightarrow> 0 \<le> strtol_digits 0 s \<and> strtol_digits 0 s \<le> 15"
proof -
  assume l: "length s \<le> 1"
  have "(16::int) ^ length s \<le> 16 ^ 1" using l by (intro power_increasing) auto
  with strtol_digits_bounds [of 0 s] show ?thesis by simp
qed

text \<open>On at most two characters \<^verbatim>\<open>strtol\<close> is negative only after a leading minus sign,
  which leaves room for one digit.\<close>

lemma strtol16_short:
  assumes "length s \<le> 2"
  shows "- 15 \<le> strtol16 s \<and> strtol16 s \<le> 255
         \<and> (s = [] \<or> hd s \<noteq> CHR ''-'' \<longrightarrow> 0 \<le> strtol16 s)"
proof -
  have one: "\<And>x. 0 \<le> strtol_digits 0 [x] \<and> strtol_digits 0 [x] \<le> 15"
    by (rule strtol_digits_0_one) simp
  have two: "\<And>x y. 0 \<le> strtol_digits 0 [x, y] \<and> strtol_digits 0 [x, y] \<le> 255"
    by (rule strtol_digits_0_short) simp
  consider "s = []" | a where "s = [a]" | a b where "s = [a, b]"
    using assms by (cases s rule: list.exhaust; cases "tl s"; cases "tl (tl s)") auto
  then show ?thesis
  proof cases
    case 1
    then show ?thesis by (simp add: strtol16_def)
  next
    case (2 a)
    with one [of a] show ?thesis
      by (auto simp: strtol16_def)
  next
    case (3 a b)
    have "- 15 \<le> strtol16 [a, b] \<and> strtol16 [a, b] \<le> 255
          \<and> (a \<noteq> CHR ''-'' \<longrightarrow> 0 \<le> strtol16 [a, b])"
      using one [of a] one [of b] two [of a b]
      by (auto simp: strtol16_def)
    with 3 show ?thesis by simp
  qed
qed

lemma group_bounds:
  "- 15 \<le> strtol16 (c_string [a, b]) \<and> strtol16 (c_string [a, b]) \<le> 255
   \<and> (a \<noteq> CHR ''-'' \<longrightarrow> 0 \<le> strtol16 (c_string [a, b]))"
proof -
  have len: "length (c_string [a, b]) \<le> 2"
    using length_c_string [of "[a, b]"] by simp
  have hd: "a \<noteq> CHR ''-'' \<Longrightarrow> c_string [a, b] = [] \<or> hd (c_string [a, b]) \<noteq> CHR ''-''"
    using group_cases [of a b] by auto
  from strtol16_short [OF len] hd show ?thesis by blast
qed

lemma group_hex:
  assumes "hex_digit a = Some hi" and "hex_digit b = Some lo"
  shows "strtol16 (c_string [a, b]) = 16 * int hi + int lo"
proof -
  note na = hex_digit_not_special [OF assms(1)]
  note nb = hex_digit_not_special [OF assms(2)]
  have "c_string [a, b] = [a, b]"
    using na nb by (simp add: c_string_def)
  moreover have "strtol16 [a, b] = 16 * int hi + int lo"
    using na assms by (simp add: strtol16_def)
  ultimately show ?thesis by simp
qed

lemma group_FF: "strtol16 (c_string [CHR ''F'', CHR ''F'']) = 255"
  by (simp add: c_string_def NUL_def strtol16_def isspace_def hex_digit_def)

lemma channel_bounds:
  fixes n :: int
  assumes "- 15 \<le> n" and "n \<le> 255"
  shows "- (15 / 255) \<le> real_of_int n / 255 \<and> real_of_int n / 255 \<le> 1
         \<and> (0 \<le> n \<longrightarrow> 0 \<le> real_of_int n / 255)"
proof -
  have "real_of_int (- 15) \<le> real_of_int n" and "real_of_int n \<le> real_of_int 255"
    using assms by (simp_all only: of_int_le_iff)
  then show ?thesis by simp
qed

subsection \<open>When a colour is returned, and which\<close>

lemma hex_to_color_defined:
  "(\<exists>c. draw_util_hex_to_color g color = Some c) = (6 \<le> length color)"
proof
  assume "\<exists>c. draw_util_hex_to_color g color = Some c"
  then have "c_index color 6 \<noteq> None"
    by (auto simp: draw_util_hex_to_color_def Let_def split: Option.bind_splits)
  then show "6 \<le> length color"
    by (simp add: c_index_None_iff)
next
  assume l: "6 \<le> length color"
  have i: "\<And>i. i \<le> 6 \<Longrightarrow> \<exists>c. c_index color i = Some c"
    using l by (simp add: c_index_Some_iff)
  have a: "c_strlen color = 9 \<Longrightarrow> \<exists>c. c_index color 7 = Some c"
    "c_strlen color = 9 \<Longrightarrow> \<exists>c. c_index color 8 = Some c"
    using c_strlen_le [of color] by (simp_all add: c_index_Some_iff)
  obtain c1 c2 c3 c4 c5 c6 where
    "c_index color 1 = Some c1" "c_index color 2 = Some c2" "c_index color 3 = Some c3"
    "c_index color 4 = Some c4" "c_index color 5 = Some c5" "c_index color 6 = Some c6"
    using i [of 1] i [of 2] i [of 3] i [of 4] i [of 5] i [of 6] by auto
  then show "\<exists>c. draw_util_hex_to_color g color = Some c"
    using a by (auto simp: draw_util_hex_to_color_def Let_def c_strlen_literal)
qed

lemma hex_to_color_channels:
  assumes "draw_util_hex_to_color g color = Some c"
  shows "\<exists>c1 c2 c3 c4 c5 c6 a0 a1.
           c_index color 1 = Some c1 \<and> c_index color 2 = Some c2 \<and>
           c_index color 3 = Some c3 \<and> c_index color 4 = Some c4 \<and>
           c_index color 5 = Some c5 \<and> c_index color 6 = Some c6 \<and>
           (if c_strlen color = 9
            then c_index color 7 = Some a0 \<and> c_index color 8 = Some a1
            else a0 = CHR ''F'' \<and> a1 = CHR ''F'') \<and>
           red c = real_of_int (strtol16 (c_string [c1, c2])) / 255 \<and>
           green c = real_of_int (strtol16 (c_string [c3, c4])) / 255 \<and>
           blue c = real_of_int (strtol16 (c_string [c5, c6])) / 255 \<and>
           alpha c = real_of_int (strtol16 (c_string [a0, a1])) / 255 \<and>
           colorpixel c = g color"
  using assms
  by (auto simp: draw_util_hex_to_color_def Let_def c_strlen_literal
           split: Option.bind_splits if_splits)

subsection \<open>The claims about the colour parser\<close>

text \<open>
  Claim C1: \<^verbatim>\<open>hex_to_color("#000000")\<close> has red, green and blue 0 and alpha 1, and
  \<^verbatim>\<open>hex_to_color("#ffffffff")\<close> has all four channels 1. The pixel value is whatever
  \<^verbatim>\<open>get_colorpixel\<close> answers for the same string.
\<close>

theorem hex_to_color_black_and_white:
  "draw_util_hex_to_color get_colorpixel ''#000000'' =
     Some \<lparr>red = 0, green = 0, blue = 0, alpha = 1,
           colorpixel = get_colorpixel ''#000000''\<rparr>
   \<and> draw_util_hex_to_color get_colorpixel ''#ffffffff'' =
     Some \<lparr>red = 1, green = 1, blue = 1, alpha = 1,
           colorpixel = get_colorpixel ''#ffffffff''\<rparr>"
  by (simp add: hex_to_color_unfold)

text \<open>
  Claim C2, as amended: the alpha channel. For an input of \<^verbatim>\<open>strlen\<close> 9 whose
  characters 7 and 8 are hexadecimal digits of values \<open>hi\<close> and \<open>lo\<close>, a colour is
  returned and its alpha is \<open>(16 * hi + lo) / 255\<close>. For an input of any other
  \<^verbatim>\<open>strlen\<close> whose array holds at least six characters before its terminator, so in
  particular for \<^verbatim>\<open>strlen\<close> 7 (\<^verbatim>\<open>#rrggbb\<close>) and 8, a colour is returned and its alpha is
  1. An input of \<^verbatim>\<open>strlen\<close> other than 9 never yields a colour with another alpha.
\<close>

theorem hex_to_color_alpha:
  "(c_strlen color = 9 \<longrightarrow> hex_digit (color ! 7) = Some hi \<longrightarrow> hex_digit (color ! 8) = Some lo \<longrightarrow>
      (\<exists>c. draw_util_hex_to_color g color = Some c \<and> alpha c = real (16 * hi + lo) / 255))
   \<and> (c_strlen color \<noteq> 9 \<longrightarrow> 6 \<le> length color \<longrightarrow>
      (\<exists>c. draw_util_hex_to_color g color = Some c \<and> alpha c = 1))
   \<and> (c_strlen color = 7 \<or> c_strlen color = 8 \<longrightarrow>
      (\<exists>c. draw_util_hex_to_color g color = Some c \<and> alpha c = 1))
   \<and> (c_strlen color \<noteq> 9 \<longrightarrow> (\<forall>c. draw_util_hex_to_color g color = Some c \<longrightarrow> alpha c = 1))"
proof -
  have other: "\<exists>c. draw_util_hex_to_color g color = Some c \<and> alpha c = 1"
    if n: "c_strlen color \<noteq> 9" and len: "6 \<le> length color"
  proof -
    obtain c where c: "draw_util_hex_to_color g color = Some c"
      using hex_to_color_defined [of g color] len by auto
    from hex_to_color_channels [OF c] n have "alpha c = 1"
      by (auto simp: group_FF)
    with c show ?thesis by simp
  qed
  show ?thesis
  proof (intro conjI impI allI)
    assume n: "c_strlen color = 9"
      and hi: "hex_digit (color ! 7) = Some hi" and lo: "hex_digit (color ! 8) = Some lo"
    have len: "9 \<le> length color"
      using c_strlen_le [of color] n by simp
    then obtain c where c: "draw_util_hex_to_color g color = Some c"
      using hex_to_color_defined [of g color] by auto
    from hex_to_color_channels [OF c] n len
    have "alpha c = real_of_int (strtol16 (c_string [color ! 7, color ! 8])) / 255"
      by (auto simp: c_index_in)
    with group_hex [OF hi lo] c
    show "\<exists>c. draw_util_hex_to_color g color = Some c \<and> alpha c = real (16 * hi + lo) / 255"
      by simp
  next
    assume "c_strlen color \<noteq> 9" and "6 \<le> length color"
    then show "\<exists>c. draw_util_hex_to_color g color = Some c \<and> alpha c = 1"
      by (rule other)
  next
    assume "c_strlen color = 7 \<or> c_strlen color = 8"
    then have "c_strlen color \<noteq> 9" and "6 \<le> length color"
      using c_strlen_le [of color] by auto
    then show "\<exists>c. draw_util_hex_to_color g color = Some c \<and> alpha c = 1"
      by (rule other)
  next
    fix c
    assume n: "c_strlen color \<noteq> 9" and c: "draw_util_hex_to_color g color = Some c"
    from hex_to_color_channels [OF c] n show "alpha c = 1"
      by (auto simp: group_FF)
  qed
qed

text \<open>Witness for C2: \<^verbatim>\<open>#11223380\<close> has alpha \<open>128 / 255\<close>; the 7-character
  \<^verbatim>\<open>#112233\<close> and the 8-character \<^verbatim>\<open>#1122334\<close> have alpha 1.\<close>

theorem hex_to_color_alpha_witness:
  "map_option alpha (draw_util_hex_to_color (\<lambda>_. 0) ''#11223380'') = Some (128 / 255)
   \<and> map_option alpha (draw_util_hex_to_color (\<lambda>_. 0) ''#112233'') = Some 1
   \<and> map_option alpha (draw_util_hex_to_color (\<lambda>_. 0) ''#1122334'') = Some 1"
  using hex_to_color_alpha [of "''#11223380''" 8 0 "\<lambda>_. 0"]
    hex_to_color_alpha [of "''#112233''" 0 0 "\<lambda>_. 0"]
    hex_to_color_alpha [of "''#1122334''" 0 0 "\<lambda>_. 0"]
  by (auto simp: c_strlen_def NUL_def hex_digit_def)

text \<open>Counterexample to C2 as stated: the string \<^verbatim>\<open>#ab\<close> has a \<^verbatim>\<open>strlen\<close> other than 9,
  but the reads of \<^verbatim>\<open>color[4]\<close> to \<^verbatim>\<open>color[6]\<close> are outside its array of four bytes: no
  colour is returned, so none with alpha 1.\<close>

theorem hex_to_color_alpha_short_input:
  "c_strlen ''#ab'' \<noteq> 9
   \<and> map_option alpha (draw_util_hex_to_color (\<lambda>_. 0) ''#ab'') = None
   \<and> map_option alpha (draw_util_hex_to_color (\<lambda>_. 0) ''#ab'') \<noteq> Some 1"
  by (simp add: hex_to_color_unfold)

text \<open>
  Claim C3, as amended: for every input of \<^verbatim>\<open>strlen\<close> at least 7 a colour is returned and
  each of its four channels lies between \<open>-15/255\<close> and 1. A channel is at least 0
  whenever the first character of its group (character 1 for red, 3 for green, 5 for
  blue, and 7 for the alpha of a 9-character input) is not a minus sign. \<^verbatim>\<open>strtol\<close>
  accepts a sign, so a group such as \<^verbatim>\<open>-f\<close> is read as \<open>-15\<close> rather than 0.
\<close>

theorem hex_to_color_channel_range:
  assumes "7 \<le> c_strlen color"
  shows "\<exists>c. draw_util_hex_to_color g color = Some c
           \<and> - (15 / 255) \<le> red c \<and> red c \<le> 1
           \<and> - (15 / 255) \<le> green c \<and> green c \<le> 1
           \<and> - (15 / 255) \<le> blue c \<and> blue c \<le> 1
           \<and> - (15 / 255) \<le> alpha c \<and> alpha c \<le> 1
           \<and> (color ! 1 \<noteq> CHR ''-'' \<longrightarrow> 0 \<le> red c)
           \<and> (color ! 3 \<noteq> CHR ''-'' \<longrightarrow> 0 \<le> green c)
           \<and> (color ! 5 \<noteq> CHR ''-'' \<longrightarrow> 0 \<le> blue c)
           \<and> (c_strlen color \<noteq> 9 \<or> color ! 7 \<noteq> CHR ''-'' \<longrightarrow> 0 \<le> alpha c)"
proof -
  have len: "7 \<le> length color"
    using c_strlen_le [of color] assms by simp
  then obtain c where c: "draw_util_hex_to_color g color = Some c"
    using hex_to_color_defined [of g color] by auto
  have len9: "c_strlen color = 9 \<Longrightarrow> 9 \<le> length color"
    using c_strlen_le [of color] by simp
  have ch: "\<And>a b x. x = real_of_int (strtol16 (c_string [a, b])) / 255 \<Longrightarrow>
              - (15 / 255) \<le> x \<and> x \<le> 1 \<and> (a \<noteq> CHR ''-'' \<longrightarrow> 0 \<le> x)"
    using group_bounds channel_bounds by blast
  from hex_to_color_channels [OF c] obtain c1 c2 c3 c4 c5 c6 a0 a1 where
    i1: "c_index color 1 = Some c1" and i3: "c_index color 3 = Some c3" and
    i5: "c_index color 5 = Some c5" and
    al: "if c_strlen color = 9
         then c_index color 7 = Some a0 \<and> c_index color 8 = Some a1
         else a0 = CHR ''F'' \<and> a1 = CHR ''F''" and
    r: "red c = real_of_int (strtol16 (c_string [c1, c2])) / 255" and
    g: "green c = real_of_int (strtol16 (c_string [c3, c4])) / 255" and
    b: "blue c = real_of_int (strtol16 (c_string [c5, c6])) / 255" and
    a: "alpha c = real_of_int (strtol16 (c_string [a0, a1])) / 255"
    by blast
  have c1: "c1 = color ! 1" and c3: "c3 = color ! 3" and c5: "c5 = color ! 5"
    using i1 i3 i5 len by (simp_all add: c_index_in)
  have a0: "c_strlen color \<noteq> 9 \<or> color ! 7 \<noteq> CHR ''-'' \<Longrightarrow> a0 \<noteq> CHR ''-''"
    using al len9 by (auto simp: c_index_in split: if_splits)
  from ch [OF r] ch [OF g] ch [OF b] ch [OF a] c a0 show ?thesis
    unfolding c1 c3 c5 by blast
qed

text \<open>Witness for C3: \<^verbatim>\<open>#ff8000\<close> has \<^verbatim>\<open>strlen\<close> 7 and all its channels are in [0, 1].\<close>

theorem hex_to_color_channel_range_witness:
  "7 \<le> c_strlen ''#ff8000''
   \<and> (\<exists>c. draw_util_hex_to_color (\<lambda>_. 0) ''#ff8000'' = Some c
         \<and> 0 \<le> red c \<and> red c \<le> 1 \<and> 0 \<le> green c \<and> green c \<le> 1
         \<and> 0 \<le> blue c \<and> blue c \<le> 1 \<and> 0 \<le> alpha c \<and> alpha c \<le> 1)"
proof -
  have h: "7 \<le> c_strlen ''#ff8000''"
    by (simp add: c_strlen_def NUL_def)
  from hex_to_color_channel_range [OF h, of "\<lambda>_. 0"] h show ?thesis
    by (auto simp: c_strlen_def NUL_def)
qed

text \<open>Counterexample to C3 as stated: the 7-character input \<^verbatim>\<open>#-f0000\<close> has the red
  channel \<open>-15/255\<close>, which is below 0.\<close>

theorem hex_to_color_negative_channel:
  "7 \<le> c_strlen ''#-f0000''
   \<and> draw_util_hex_to_color (\<lambda>_. 0) ''#-f0000'' =
       Some \<lparr>red = - (15 / 255), green = 0, blue = 0, alpha = 1, colorpixel = 0\<rparr>
   \<and> - (15 / 255) < (0 :: real)"
  by (simp add: hex_to_color_unfold)

text \<open>
  Claim C4, as amended: \<^verbatim>\<open>hex_to_color\<close> has no error path, and it returns a colour
  exactly when the array of its argument holds at least six characters before the
  terminator, so for every string of \<^verbatim>\<open>strlen\<close> at least 6, well-formed or not. (That
  \<^verbatim>\<open>get_colorpixel\<close> returns is taken for granted: it is a function of libi3.)
\<close>

theorem hex_to_color_returns:
  "((\<exists>c. draw_util_hex_to_color g color = Some c) \<longleftrightarrow> 6 \<le> length color)
   \<and> (6 \<le> c_strlen color \<longrightarrow> (\<exists>c. draw_util_hex_to_color g color = Some c))"
  using hex_to_color_defined [of g color] c_strlen_le [of color] by auto

text \<open>Witness for C4: the comment's own example \<^verbatim>\<open>#3fbc59\<close>.\<close>

theorem hex_to_color_returns_witness:
  "6 \<le> c_strlen ''#3fbc59'' \<and> (\<exists>c. draw_util_hex_to_color (\<lambda>_. 0) ''#3fbc59'' = Some c)"
proof -
  have h: "6 \<le> c_strlen ''#3fbc59''"
    by (simp add: c_strlen_def NUL_def)
  with hex_to_color_returns [of "\<lambda>_. 0" "''#3fbc59''"] show ?thesis
    by blast
qed

text \<open>Counterexample to C4 as stated: for the string \<^verbatim>\<open>#fff\<close> the array has five bytes
  and \<^verbatim>\<open>color[5]\<close> is read outside it, so no colour is returned.\<close>

theorem hex_to_color_short_input:
  "draw_util_hex_to_color (\<lambda>_. 0) ''#fff'' = None"
  by (simp add: hex_to_color_unfold)

text \<open>
  Claim C8: the four channels do not depend on character 0. Two inputs of equal
  \<^verbatim>\<open>strlen\<close> whose arrays agree at the indices 1 to 8 (both holding the same byte there,
  or both ending before) give the same red, green, blue and alpha, or both give none.
\<close>

theorem hex_to_color_ignores_first_char:
  assumes "c_strlen s = c_strlen t"
    and "\<forall>i\<in>{1..8}. c_index s i = c_index t i"
  shows "map_option (\<lambda>c. (red c, green c, blue c, alpha c)) (draw_util_hex_to_color g s)
       = map_option (\<lambda>c. (red c, green c, blue c, alpha c)) (draw_util_hex_to_color g t)"
proof -
  have eqs: "c_index s 1 = c_index t 1" "c_index s 2 = c_index t 2" "c_index s 3 = c_index t 3"
    "c_index s 4 = c_index t 4" "c_index s 5 = c_index t 5" "c_index s 6 = c_index t 6"
    "c_index s 7 = c_index t 7" "c_index s 8 = c_index t 8"
    using assms(2) by simp_all
  show ?thesis
    unfolding draw_util_hex_to_color_def eqs assms(1)
    by (simp add: Let_def split: Option.bind_split)
qed

text \<open>Witness for C8: \<^verbatim>\<open>#ff8000\<close> and \<^verbatim>\<open>xff8000\<close>.\<close>

theorem hex_to_color_ignores_first_char_witness:
  "c_strlen ''#ff8000'' = c_strlen ''xff8000''
   \<and> map_option (\<lambda>c. (red c, green c, blue c, alpha c))
        (draw_util_hex_to_color (\<lambda>_. 0) ''#ff8000'')
     = map_option (\<lambda>c. (red c, green c, blue c, alpha c))
        (draw_util_hex_to_color (\<lambda>_. 0) ''xff8000'')"
proof -
  have l: "c_strlen ''#ff8000'' = c_strlen ''xff8000''"
    by (simp add: c_strlen_def NUL_def)
  have a: "\<forall>i\<in>{1..8}. c_index ''#ff8000'' i = c_index ''xff8000'' i"
    by (auto simp: c_index_def nth_Cons')
  from hex_to_color_ignores_first_char [OF l a, of "\<lambda>_. 0"] l show ?thesis
    by simp
qed

section \<open>Properties of the surface functions\<close>

subsection \<open>Conversions\<close>

lemma sint_int16:
  assumes "- 32768 \<le> t" and "t \<le> 32767"
  shows "sint (word_of_int t :: 16 word) = t"
proof -
  have "(t + 32768) mod 65536 = t + 32768"
    using assms by simp
  then show ?thesis
    by (simp add: int_word_sint)
qed

lemma uint_uint16:
  assumes "0 \<le> t" and "t \<le> 65535"
  shows "uint (word_of_int t :: 16 word) = t"
  using assms by (simp add: uint_word_of_int)

lemma double_to_int16_fits: "fits_int16 d \<Longrightarrow> sint (double_to_int16 pf d) = trunc d"
  by (simp add: double_to_int16_def fits_int16_def sint_int16)

lemma double_to_uint16_fits: "fits_uint16 d \<Longrightarrow> uint (double_to_uint16 pf d) = trunc d"
  by (simp add: double_to_uint16_def fits_uint16_def uint_uint16)

text \<open>On x86-64 both conversions keep the low 16 bits of the 32-bit result.\<close>

lemma double_to_int16_x86_64: "double_to_int16 x86_64 d = word_of_int (cvttsd2si d)"
proof (cases "fits_int16 d")
  case True
  then have "fits_int32 d"
    by (simp add: fits_int16_def fits_int32_def)
  with True show ?thesis
    by (simp add: double_to_int16_def cvttsd2si_def)
next
  case False
  then show ?thesis
    by (simp add: double_to_int16_def x86_64_def)
qed

lemma double_to_uint16_x86_64: "double_to_uint16 x86_64 d = word_of_int (cvttsd2si d)"
proof (cases "fits_uint16 d")
  case True
  then have "fits_int32 d"
    by (simp add: fits_uint16_def fits_int32_def)
  with True show ?thesis
    by (simp add: double_to_uint16_def cvttsd2si_def)
next
  case False
  then show ?thesis
    by (simp add: double_to_uint16_def x86_64_def)
qed

subsection \<open>The claims about surfaces\<close>

text \<open>
  Claim C5: \<^verbatim>\<open>draw_util_surface_init\<close> exits if and only if the creation of the graphics
  context for the drawable is reported as failed; the exit status is then
  \<^verbatim>\<open>EXIT_FAILURE\<close>, and there is no other exit. When the creation is not reported as
  failed, the function returns normally. This holds with and without cairo.
\<close>

theorem surface_init_exits_iff:
  "((\<exists>status. draw_util_surface_init I3BAR_CAIRO lib s drawable w h = Inl status)
      \<longleftrightarrow> xcb_request_failed lib (xcb_generate_id lib) drawable)
   \<and> (\<forall>status. draw_util_surface_init I3BAR_CAIRO lib s drawable w h = Inl status
        \<longrightarrow> status = EXIT_FAILURE)
   \<and> ((\<exists>s'. draw_util_surface_init I3BAR_CAIRO lib s drawable w h = Inr s')
      \<longleftrightarrow> \<not> xcb_request_failed lib (xcb_generate_id lib) drawable)"
  by (auto simp: draw_util_surface_init_def Let_def)

text \<open>Witness for C5: a server that rejects a graphics context on drawable 0 only. The
  call for drawable 0 exits with \<^verbatim>\<open>EXIT_FAILURE\<close>, the call for drawable 5 returns.\<close>

theorem surface_init_exits_iff_witness:
  "draw_util_surface_init False
     \<lparr>xcb_generate_id = 7, xcb_request_failed = (\<lambda>g d. d = 0),
      cairo_xcb_surface_create = (\<lambda>_ _ _. 8), cairo_create = (\<lambda>_. 9)\<rparr>
     \<lparr>id' = 1, gc = 2, width = 3, height = 4, surface = 5, cr = 6\<rparr> 0 10 20
   = Inl EXIT_FAILURE
   \<and> (\<exists>s'. draw_util_surface_init False
     \<lparr>xcb_generate_id = 7, xcb_request_failed = (\<lambda>g d. d = 0),
      cairo_xcb_surface_create = (\<lambda>_ _ _. 8), cairo_create = (\<lambda>_. 9)\<rparr>
     \<lparr>id' = 1, gc = 2, width = 3, height = 4, surface = 5, cr = 6\<rparr> 5 10 20
   = Inr s')"
  using surface_init_exits_iff
    [of False "\<lparr>xcb_generate_id = 7, xcb_request_failed = (\<lambda>g d. d = 0),
      cairo_xcb_surface_create = (\<lambda>_ _ _. 8), cairo_create = (\<lambda>_. 9)\<rparr>"
      "\<lparr>id' = 1, gc = 2, width = 3, height = 4, surface = 5, cr = 6\<rparr>" 0 10 20]
    surface_init_exits_iff
    [of False "\<lparr>xcb_generate_id = 7, xcb_request_failed = (\<lambda>g d. d = 0),
      cairo_xcb_surface_create = (\<lambda>_ _ _. 8), cairo_create = (\<lambda>_. 9)\<rparr>"
      "\<lparr>id' = 1, gc = 2, width = 3, height = 4, surface = 5, cr = 6\<rparr>" 5 10 20]
  by auto

text \<open>
  Claim C10: when \<^verbatim>\<open>draw_util_surface_init\<close> returns, the surface's drawable identifier,
  width and height are the arguments given, whatever the surface held before.
\<close>

theorem surface_init_stores_arguments:
  assumes "draw_util_surface_init I3BAR_CAIRO lib s drawable w h = Inr s'"
  shows "id' s' = drawable \<and> width s' = w \<and> height s' = h"
  using assms by (auto simp: draw_util_surface_init_def Let_def split: if_splits)

text \<open>Witness for C10: a call with cairo that returns, for drawable 5 of size 10 by 20.\<close>

theorem surface_init_stores_arguments_witness:
  "\<exists>s'. draw_util_surface_init True
     \<lparr>xcb_generate_id = 7, xcb_request_failed = (\<lambda>g d. d = 0),
      cairo_xcb_surface_create = (\<lambda>_ _ _. 8), cairo_create = (\<lambda>_. 9)\<rparr>
     \<lparr>id' = 1, gc = 2, width = 3, height = 4, surface = 5, cr = 6\<rparr> 5 10 20 = Inr s'
   \<and> id' s' = 5 \<and> width s' = 10 \<and> height s' = 20"
proof -
  have r: "draw_util_surface_init True
     \<lparr>xcb_generate_id = 7, xcb_request_failed = (\<lambda>g d. d = 0),
      cairo_xcb_surface_create = (\<lambda>_ _ _. 8), cairo_create = (\<lambda>_. 9)\<rparr>
     \<lparr>id' = 1, gc = 2, width = 3, height = 4, surface = 5, cr = 6\<rparr> 5 10 20
   = Inr \<lparr>id' = 5, gc = 7, width = 10, height = 20, surface = 8, cr = 9\<rparr>"
    by (simp add: draw_util_surface_init_def)
  from surface_init_stores_arguments [OF r] r show ?thesis
    by blast
qed

text \<open>
  Claim C9, as amended: without cairo, \<^verbatim>\<open>draw_util_copy_surface\<close> always issues one
  copy, whose six coordinates are its double arguments converted to 16-bit integers:
  signed for the four offsets, unsigned for width and height. On every platform an
  argument whose integral part is a value of the 16-bit type is passed as that
  integral part (the fraction is discarded, nothing wraps). For the other arguments
  C does not define the conversion. The usual x86-64 build reduces the integral part
  modulo \<open>2^16\<close> when it is a 32-bit signed integer, and passes 0 otherwise.
\<close>

theorem copy_surface_xcb_arguments:
  "draw_util_copy_surface False pf src dest src_x src_y dest_x dest_y w h =
     [Xcb_copy_area (id' src) (id' dest) (gc dest)
        (double_to_int16 pf src_x) (double_to_int16 pf src_y)
        (double_to_int16 pf dest_x) (double_to_int16 pf dest_y)
        (double_to_uint16 pf w) (double_to_uint16 pf h)]
   \<and> (\<forall>d. fits_int16 d \<longrightarrow> sint (double_to_int16 pf d) = trunc d)
   \<and> (\<forall>d. fits_uint16 d \<longrightarrow> uint (double_to_uint16 pf d) = trunc d)
   \<and> (\<forall>d. fits_int32 d \<longrightarrow>
          sint (double_to_int16 x86_64 d) = (trunc d + 32768) mod 65536 - 32768)
   \<and> (\<forall>d. fits_int32 d \<longrightarrow> uint (double_to_uint16 x86_64 d) = trunc d mod 65536)
   \<and> (\<forall>d. \<not> fits_int32 d \<longrightarrow>
          double_to_int16 x86_64 d = 0 \<and> double_to_uint16 x86_64 d = 0)"
proof (intro conjI allI impI)
  show "draw_util_copy_surface False pf src dest src_x src_y dest_x dest_y w h =
     [Xcb_copy_area (id' src) (id' dest) (gc dest)
        (double_to_int16 pf src_x) (double_to_int16 pf src_y)
        (double_to_int16 pf dest_x) (double_to_int16 pf dest_y)
        (double_to_uint16 pf w) (double_to_uint16 pf h)]"
    by (simp add: draw_util_copy_surface_def)
next
  fix d assume "fits_int16 d"
  then show "sint (double_to_int16 pf d) = trunc d"
    by (rule double_to_int16_fits)
next
  fix d assume "fits_uint16 d"
  then show "uint (double_to_uint16 pf d) = trunc d"
    by (rule double_to_uint16_fits)
next
  fix d assume "fits_int32 d"
  then show "sint (double_to_int16 x86_64 d) = (trunc d + 32768) mod 65536 - 32768"
    by (simp add: double_to_int16_x86_64 cvttsd2si_def int_word_sint)
next
  fix d assume "fits_int32 d"
  then show "uint (double_to_uint16 x86_64 d) = trunc d mod 65536"
    by (simp add: double_to_uint16_x86_64 cvttsd2si_def uint_word_of_int)
next
  fix d assume "\<not> fits_int32 d"
  then show "double_to_int16 x86_64 d = 0"
    by (simp add: double_to_int16_x86_64 cvttsd2si_def)
next
  fix d assume "\<not> fits_int32 d"
  then show "double_to_uint16 x86_64 d = 0"
    by (simp add: double_to_uint16_x86_64 cvttsd2si_def)
qed

text \<open>Witness for C9, on x86-64: the offset \<open>-1.5\<close> and the height \<open>2.5\<close> lose their
  fractions, the offset 65537 wraps to 1 and the width \<open>-1\<close> to 65535, and \<open>2^32 + 1\<close>
  becomes 0.\<close>

theorem copy_surface_xcb_arguments_witness:
  "draw_util_copy_surface False x86_64
     \<lparr>id' = 1, gc = 2, width = 10, height = 10, surface = 3, cr = 4\<rparr>
     \<lparr>id' = 11, gc = 12, width = 10, height = 10, surface = 13, cr = 14\<rparr>
     65537 (- (3 / 2)) 7 5 (- 1) (5 / 2)
   = [Xcb_copy_area 1 11 12 1 (- 1) 7 5 65535 2]
   \<and> fits_int16 (- (3 / 2)) \<and> sint (double_to_int16 x86_64 (- (3 / 2))) = - 1
   \<and> fits_uint16 (5 / 2) \<and> uint (double_to_uint16 x86_64 (5 / 2)) = 2
   \<and> fits_int32 65537 \<and> sint (double_to_int16 x86_64 65537) = 1
   \<and> fits_int32 (- 1) \<and> uint (double_to_uint16 x86_64 (- 1)) = 65535
   \<and> \<not> fits_int32 4294967297 \<and> double_to_int16 x86_64 4294967297 = 0"
proof -
  have f: "fits_int16 (- (3 / 2))" "fits_uint16 (5 / 2)" "fits_int32 65537" "fits_int32 (- 1)"
    "\<not> fits_int32 4294967297"
    by (simp_all add: fits_int16_def fits_uint16_def fits_int32_def trunc_def ceiling_def)
  have t: "trunc (- (3 / 2)) = - 1" "trunc (5 / 2) = 2" "trunc 65537 = 65537" "trunc (- 1) = - 1"
    by (simp_all add: trunc_def ceiling_def)
  have c: "double_to_int16 x86_64 7 = 7" "double_to_int16 x86_64 5 = 5"
    "double_to_int16 x86_64 65537 = 1" "double_to_int16 x86_64 (- (3 / 2)) = - 1"
    "double_to_uint16 x86_64 (- 1) = 65535" "double_to_uint16 x86_64 (5 / 2) = 2"
    by (simp_all add: double_to_int16_x86_64 double_to_uint16_x86_64 cvttsd2si_def
        fits_int32_def trunc_def ceiling_def)
  from copy_surface_xcb_arguments
    [of x86_64 "\<lparr>id' = 1, gc = 2, width = 10, height = 10, surface = 3, cr = 4\<rparr>"
        "\<lparr>id' = 11, gc = 12, width = 10, height = 10, surface = 13, cr = 14\<rparr>"
        65537 "- (3 / 2)" 7 5 "- 1" "5 / 2"]
  show ?thesis
    using f t c by simp
qed

text \<open>Counterexample to C9 as stated: on x86-64 the source offset \<open>2^32 + 1\<close>, which
  is 1 modulo \<open>2^16\<close>, is passed as 0.\<close>

theorem copy_surface_xcb_beyond_32_bits:
  "draw_util_copy_surface False x86_64
     \<lparr>id' = 1, gc = 2, width = 10, height = 10, surface = 3, cr = 4\<rparr>
     \<lparr>id' = 11, gc = 12, width = 10, height = 10, surface = 13, cr = 14\<rparr>
     4294967297 0 0 0 1 1
   = [Xcb_copy_area 1 11 12 0 0 0 0 1 1]
   \<and> (4294967297 + 32768) mod 65536 - 32768 = (1 :: int)"
  by (simp add: draw_util_copy_surface_def double_to_int16_x86_64 double_to_uint16_x86_64
      cvttsd2si_def fits_int32_def trunc_def)

text \<open>
  Claim C7 fails for \<^verbatim>\<open>draw_util_copy_surface\<close>. For a copy of one pixel from the source
  position \<open>(0, 1)\<close> to the destination position \<open>(0, 5)\<close>, the build without cairo
  shows the source pixel \<open>(0, 1)\<close> at the destination \<open>(0, 5)\<close>, as asked. The build
  with cairo places the source's origin at \<open>(dest_x - src_x, src_y) = (0, 1)\<close>, not at
  \<open>(dest_x - src_x, dest_y - src_y) = (0, 4)\<close>, and so shows the source pixel
  \<open>(0, 4)\<close> there. The two builds agree only when \<open>dest_y = 2 * src_y\<close>.
\<close>

theorem copy_surface_paths_differ:
  "copied_from (draw_util_copy_surface False pf src dest 0 1 0 5 1 1) (0, 5) = Some (0, 1)
   \<and> copied_from (draw_util_copy_surface True pf src dest 0 1 0 5 1 1) (0, 5) = Some (0, 4)
   \<and> draw_util_copy_surface True pf src dest 0 1 0 5 1 1 =
       [Cairo_save (cr dest),
        Cairo_set_operator (cr dest) CAIRO_OPERATOR_SOURCE,
        Cairo_set_source_surface (cr dest) (surface src) 0 1,
        Cairo_rectangle (cr dest) 0 5 1 1,
        Cairo_fill (cr dest),
        CAIRO_SURFACE_FLUSH (surface src),
        CAIRO_SURFACE_FLUSH (surface dest),
        Cairo_restore (cr dest)]
   \<and> draw_util_copy_surface False pf src dest 0 1 0 5 1 1 =
       [Xcb_copy_area (id' src) (id' dest) (gc dest) 0 1 0 5 1 1]"
  by (simp add: draw_util_copy_surface_def double_to_int16_def double_to_uint16_def
      fits_int16_def fits_uint16_def trunc_def
      copied_from_def copy_source_pixel_def)

subsection \<open>Copy, then clear\<close>

lemma gc_value_foreground:
  "gc_value (XCB_GC_FOREGROUND OR XCB_GC_BACKGROUND) [v, v'] 2 = Some v"
  by (simp add: gc_value_def XCB_GC_FOREGROUND_def XCB_GC_BACKGROUND_def upt_rec bit_numeral_simps)

lemma xcb_clear:
  "xcb_run (draw_util_clear_surface False s color) st =
     Some (st\<lparr>foreground := (foreground st)(gc s := colorpixel color),
              pixels := (pixels st)
                (id' s := \<lambda>p. if in_rectangle (clear_region s) p
                               then colorpixel color else pixels st (id' s) p)\<rparr>)"
  by (simp add: draw_util_clear_surface_def draw_util_set_source_color_def xcb_exec_def
      gc_value_foreground clear_region_def cong: if_cong)

lemma xcb_run_append:
  "xcb_run (cs @ ds) st = (case xcb_run cs st of None \<Rightarrow> None | Some st' \<Rightarrow> xcb_run ds st')"
  by (induction cs arbitrary: st) (auto split: option.splits)

lemma xcb_copy:
  "xcb_run (draw_util_copy_surface False pf src dest src_x src_y dest_x dest_y w h) st =
     Some (st\<lparr>pixels := (pixels st)
             (id' dest := \<lambda>p. if in_rectangle (copy_region pf dest_x dest_y w h) p
                 then pixels st (id' src)
                        (fst p - sint (double_to_int16 pf dest_x) + sint (double_to_int16 pf src_x),
                         snd p - sint (double_to_int16 pf dest_y) + sint (double_to_int16 pf src_y))
                 else pixels st (id' dest) p)\<rparr>)"
  by (simp add: draw_util_copy_surface_def xcb_exec_def copy_region_def)

lemma cairo_run_append:
  "cairo_run lib (cs @ ds) st =
     (case cairo_run lib cs st of None \<Rightarrow> None | Some st' \<Rightarrow> cairo_run lib ds st')"
  by (induction cs arbitrary: st) (auto split: option.splits)

lemma cairo_clear:
  "map_option contents (cairo_run lib (draw_util_clear_surface True s color) st) =
     Some ((contents st)(target st (cr s) :=
        (\<lambda>p. (clamp01 (red color), clamp01 (green color), clamp01 (blue color),
               clamp01 (alpha color)))))"
  by (simp add: draw_util_clear_surface_def draw_util_set_source_color_def cairo_exec_def)

lemma cairo_copy:
  "\<exists>st'. cairo_run lib (draw_util_copy_surface True pf src dest src_x src_y dest_x dest_y w h) st
           = Some st'
         \<and> target st' = target st
         \<and> (\<forall>s. s \<noteq> target st (cr dest) \<longrightarrow> contents st' s = contents st s)"
  by (simp add: draw_util_copy_surface_def cairo_exec_def)

text \<open>
  Claim C6: a copy into a surface followed by a clear of that surface leaves the
  same pixels as the clear alone. Without cairo this holds whenever the destination
  rectangle of the copy lies within the rectangle that the clear fills, so in
  particular when the two are equal: the whole server state is then the same, and
  the clear is defined. With cairo the clear paints the whole target, so the
  contents of every surface are the same after both, whatever the copy's rectangle
  and whatever the library's fill does.
\<close>

theorem copy_then_clear:
  "((\<forall>p. in_rectangle (copy_region pf dest_x dest_y w h) p \<longrightarrow> in_rectangle (clear_region dest) p)
      \<longrightarrow> xcb_run (draw_util_copy_surface False pf src dest src_x src_y dest_x dest_y w h
                    @ draw_util_clear_surface False dest color) xs
          = xcb_run (draw_util_clear_surface False dest color) xs
        \<and> xcb_run (draw_util_clear_surface False dest color) xs \<noteq> None)
   \<and> map_option contents
        (cairo_run lib (draw_util_copy_surface True pf src dest src_x src_y dest_x dest_y w h
                        @ draw_util_clear_surface True dest color) cs)
       = map_option contents (cairo_run lib (draw_util_clear_surface True dest color) cs)
   \<and> cairo_run lib (draw_util_clear_surface True dest color) cs \<noteq> None"
proof (intro conjI impI)
  assume within: "\<forall>p. in_rectangle (copy_region pf dest_x dest_y w h) p
                       \<longrightarrow> in_rectangle (clear_region dest) p"
  have "(\<lambda>p. if in_rectangle (clear_region dest) p then colorpixel color
             else if in_rectangle (copy_region pf dest_x dest_y w h) p
                  then pixels xs (id' src)
                        (fst p - sint (double_to_int16 pf dest_x) + sint (double_to_int16 pf src_x),
                         snd p - sint (double_to_int16 pf dest_y) + sint (double_to_int16 pf src_y))
                  else pixels xs (id' dest) p)
        = (\<lambda>p. if in_rectangle (clear_region dest) p then colorpixel color
               else pixels xs (id' dest) p)"
    using within by auto
  then show "xcb_run (draw_util_copy_surface False pf src dest src_x src_y dest_x dest_y w h
                    @ draw_util_clear_surface False dest color) xs
          = xcb_run (draw_util_clear_surface False dest color) xs"
    by (simp add: xcb_run_append xcb_copy xcb_clear cong: if_cong)
next
  show "xcb_run (draw_util_clear_surface False dest color) xs \<noteq> None"
    by (simp add: xcb_clear)
next
  obtain st' where c: "cairo_run lib
        (draw_util_copy_surface True pf src dest src_x src_y dest_x dest_y w h) cs = Some st'"
    and t: "target st' = target cs"
    and i: "\<forall>s. s \<noteq> target cs (cr dest) \<longrightarrow> contents st' s = contents cs s"
    using cairo_copy [of lib pf src dest src_x src_y dest_x dest_y w h cs] by blast
  have "(contents st')(target cs (cr dest) := f) = (contents cs)(target cs (cr dest) := f)" for f
    using i by (auto simp: fun_eq_iff)
  then show "map_option contents
        (cairo_run lib (draw_util_copy_surface True pf src dest src_x src_y dest_x dest_y w h
                        @ draw_util_clear_surface True dest color) cs)
       = map_option contents (cairo_run lib (draw_util_clear_surface True dest color) cs)"
    using cairo_clear [of lib dest color st'] cairo_clear [of lib dest color cs]
    by (simp add: cairo_run_append c t del: map_option_eq_Some)
next
  show "cairo_run lib (draw_util_clear_surface True dest color) cs \<noteq> None"
    using cairo_clear [of lib dest color cs] by auto
qed


text \<open>Witness for C6: a copy from drawable 1 into the whole of the 10 by 10 surface on
  drawable 11, then a clear with the pixel value 7. The two rectangles are equal, and
  the pixel \<open>(3, 4)\<close> of drawable 11 holds 7 afterwards.\<close>

theorem copy_then_clear_witness:
  "copy_region x86_64 0 0 10 10
     = clear_region \<lparr>id' = 11, gc = 12, width = 10, height = 10, surface = 13, cr = 14\<rparr>
   \<and> xcb_run
       (draw_util_copy_surface False x86_64
          \<lparr>id' = 1, gc = 2, width = 10, height = 10, surface = 3, cr = 4\<rparr>
          \<lparr>id' = 11, gc = 12, width = 10, height = 10, surface = 13, cr = 14\<rparr>
          2 3 0 0 10 10
        @ draw_util_clear_surface False
          \<lparr>id' = 11, gc = 12, width = 10, height = 10, surface = 13, cr = 14\<rparr>
          \<lparr>red = 0, green = 0, blue = 0, alpha = 1, colorpixel = 7\<rparr>)
       \<lparr>pixels = (\<lambda>d p. 0), foreground = (\<lambda>g. 0)\<rparr>
     = xcb_run
       (draw_util_clear_surface False
          \<lparr>id' = 11, gc = 12, width = 10, height = 10, surface = 13, cr = 14\<rparr>
          \<lparr>red = 0, green = 0, blue = 0, alpha = 1, colorpixel = 7\<rparr>)
       \<lparr>pixels = (\<lambda>d p. 0), foreground = (\<lambda>g. 0)\<rparr>
   \<and> map_option (\<lambda>st. pixels st 11 (3, 4))
       (xcb_run
         (draw_util_clear_surface False
            \<lparr>id' = 11, gc = 12, width = 10, height = 10, surface = 13, cr = 14\<rparr>
            \<lparr>red = 0, green = 0, blue = 0, alpha = 1, colorpixel = 7\<rparr>)
         \<lparr>pixels = (\<lambda>d p. 0), foreground = (\<lambda>g. 0)\<rparr>)
     = Some 7"
proof -
  have r: "copy_region x86_64 0 0 10 10
     = clear_region \<lparr>id' = 11, gc = 12, width = 10, height = 10, surface = 13, cr = 14\<rparr>"
    by (simp add: copy_region_def clear_region_def double_to_int16_def double_to_uint16_def
        fits_int16_def fits_uint16_def trunc_def)
  then have h: "\<forall>p. in_rectangle (copy_region x86_64 0 0 10 10) p \<longrightarrow>
      in_rectangle
        (clear_region \<lparr>id' = 11, gc = 12, width = 10, height = 10, surface = 13, cr = 14\<rparr>) p"
    by simp
  have v: "map_option (\<lambda>st. pixels st 11 (3, 4))
       (xcb_run
         (draw_util_clear_surface False
            \<lparr>id' = 11, gc = 12, width = 10, height = 10, surface = 13, cr = 14\<rparr>
            \<lparr>red = 0, green = 0, blue = 0, alpha = 1, colorpixel = 7\<rparr>)
         \<lparr>pixels = (\<lambda>d p. 0), foreground = (\<lambda>g. 0)\<rparr>)
     = Some 7"
    by (simp add: xcb_clear clear_region_def in_rectangle_def)
  from copy_then_clear
    [of x86_64 0 0 10 10
        "\<lparr>id' = 11, gc = 12, width = 10, height = 10, surface = 13, cr = 14\<rparr>"
        "\<lparr>id' = 1, gc = 2, width = 10, height = 10, surface = 3, cr = 4\<rparr>" 2 3
        "\<lparr>red = 0, green = 0, blue = 0, alpha = 1, colorpixel = 7\<rparr>"
        "\<lparr>pixels = (\<lambda>d p. 0), foreground = (\<lambda>g. 0)\<rparr>"] h r v
  show ?thesis
    by blast
qed

end
